theory Spec2Isabelle
  imports Complex_Main "HOL-Library.Word"
begin

unbundle bit_operations_syntax

section \<open>DeepTrace backend: the analyze and verify endpoints of \<^verbatim>\<open>main.py\<close>\<close>

text \<open>
  The theory embeds the two request handlers \<^verbatim>\<open>analyze_media\<close> and \<^verbatim>\<open>verify_media\<close>
  of \<^verbatim>\<open>src/main.py\<close>. Conventions of the embedding:
  \<^item> Python \<^verbatim>\<open>int\<close> is \<^typ>\<open>int\<close>; \<^verbatim>\<open>%\<close> and \<^verbatim>\<open>//\<close> are \<open>mod\<close> and \<open>div\<close>, which
    round towards minus infinity as Python does.
  \<^item> Python \<^verbatim>\<open>float\<close> is \<^typ>\<open>rat\<close>: each floating-point operation is taken without
    its rounding step. Statements about confidences and likelihoods are statements
    about this exact arithmetic.
  \<^item> \<^verbatim>\<open>str\<close> is \<^typ>\<open>string\<close> over ASCII; \<^verbatim>\<open>bytes\<close> is a list of 8-bit words.
  \<^item> A raised exception is the \<open>Inl\<close> branch of a sum; the store behind
    \<^verbatim>\<open>create_document\<close> is passed in and returned.
  \<^item> \<^verbatim>\<open>datetime.now(timezone.utc)\<close> is an argument of the handler.
\<close>

subsection \<open>Values\<close>

type_synonym byte = "8 word"

datatype error =
    HTTPException nat string
  | ValueError string
  | Exception string

record datetime =
  year :: nat
  month :: nat
  day :: nat
  hour :: nat
  minute :: nat
  second :: nat
  microsecond :: nat

record frame_score =
  frame_index :: int
  confidence :: rat

datatype pyval =
    PyStr string
  | PyInt int
  | PyFloat rat
  | PyBool bool
  | PyDatetime datetime
  | PyScores "frame_score list"

type_synonym dict = "(string \<times> pyval) list"

record AnalyzeResponse =
  job_id :: string
  filename :: string
  accuracy :: rat
  deepfake_likelihood :: rat
  frame_scores :: "frame_score list"
  analyzed_at :: datetime
  verification :: "dict option"

record VerifyRequest =
  filehash :: string

subsection \<open>\<^verbatim>\<open>hashlib.sha256\<close> (FIPS 180-4)\<close>

type_synonym u32 = "32 word"

definition K256 :: "u32 list" where
  "K256 =
   [0x428A2F98, 0x71374491, 0xB5C0FBCF, 0xE9B5DBA5, 0x3956C25B, 0x59F111F1, 0x923F82A4, 0xAB1C5ED5,
    0xD807AA98, 0x12835B01, 0x243185BE, 0x550C7DC3, 0x72BE5D74, 0x80DEB1FE, 0x9BDC06A7, 0xC19BF174,
    0xE49B69C1, 0xEFBE4786, 0x0FC19DC6, 0x240CA1CC, 0x2DE92C6F, 0x4A7484AA, 0x5CB0A9DC, 0x76F988DA,
    0x983E5152, 0xA831C66D, 0xB00327C8, 0xBF597FC7, 0xC6E00BF3, 0xD5A79147, 0x06CA6351, 0x14292967,
    0x27B70A85, 0x2E1B2138, 0x4D2C6DFC, 0x53380D13, 0x650A7354, 0x766A0ABB, 0x81C2C92E, 0x92722C85,
    0xA2BFE8A1, 0xA81A664B, 0xC24B8B70, 0xC76C51A3, 0xD192E819, 0xD6990624, 0xF40E3585, 0x106AA070,
    0x19A4C116, 0x1E376C08, 0x2748774C, 0x34B0BCB5, 0x391C0CB3, 0x4ED8AA4A, 0x5B9CCA4F, 0x682E6FF3,
    0x748F82EE, 0x78A5636F, 0x84C87814, 0x8CC70208, 0x90BEFFFA, 0xA4506CEB, 0xBEF9A3F7, 0xC67178F2]"

type_synonym sha_state = "u32 \<times> u32 \<times> u32 \<times> u32 \<times> u32 \<times> u32 \<times> u32 \<times> u32"

definition H256 :: sha_state where
  "H256 = (0x6A09E667, 0xBB67AE85, 0x3C6EF372, 0xA54FF53A,
           0x510E527F, 0x9B05688C, 0x1F83D9AB, 0x5BE0CD19)"

definition Ch :: "u32 \<Rightarrow> u32 \<Rightarrow> u32 \<Rightarrow> u32" where
  "Ch x y z = (x AND y) XOR (NOT x AND z)"

definition Maj :: "u32 \<Rightarrow> u32 \<Rightarrow> u32 \<Rightarrow> u32" where
  "Maj x y z = (x AND y) XOR (x AND z) XOR (y AND z)"

definition Sigma0 :: "u32 \<Rightarrow> u32" where
  "Sigma0 x = word_rotr 2 x XOR word_rotr 13 x XOR word_rotr 22 x"

definition Sigma1 :: "u32 \<Rightarrow> u32" where
  "Sigma1 x = word_rotr 6 x XOR word_rotr 11 x XOR word_rotr 25 x"

definition sigma0 :: "u32 \<Rightarrow> u32" where
  "sigma0 x = word_rotr 7 x XOR word_rotr 18 x XOR drop_bit 3 x"

definition sigma1 :: "u32 \<Rightarrow> u32" where
  "sigma1 x = word_rotr 17 x XOR word_rotr 19 x XOR drop_bit 10 x"

definition be64 :: "64 word \<Rightarrow> byte list" where
  "be64 n = map (\<lambda>k. ucast (drop_bit (8 * k) n)) (rev [0..<8])"

definition sha_pad :: "byte list \<Rightarrow> byte list" where
  "sha_pad m =
     m @ [0x80] @ replicate ((119 - length m mod 64) mod 64) 0 @ be64 (of_nat (8 * length m))"

fun be_words :: "byte list \<Rightarrow> u32 list" where
  "be_words (a # b # c # d # rest) =
     (push_bit 24 (ucast a) OR push_bit 16 (ucast b) OR push_bit 8 (ucast c) OR ucast d)
       # be_words rest"
| "be_words _ = []"

fun blocks :: "byte list \<Rightarrow> byte list list" where
  "blocks [] = []"
| "blocks (x # xs) = take 64 (x # xs) # blocks (drop 64 (x # xs))"

fun schedule :: "nat \<Rightarrow> u32 list \<Rightarrow> u32 list" where
  "schedule 0 w = w"
| "schedule (Suc k) w =
     (let t = length w
      in schedule k (w @ [sigma1 (w ! (t - 2)) + w ! (t - 7) + sigma0 (w ! (t - 15)) + w ! (t - 16)]))"

definition sha_round :: "sha_state \<Rightarrow> u32 \<times> u32 \<Rightarrow> sha_state" where
  "sha_round s kw =
     (case s of (a, b, c, d, e, f, g, h) \<Rightarrow>
        let t1 = h + Sigma1 e + Ch e f g + fst kw + snd kw;
            t2 = Sigma0 a + Maj a b c
        in (t1 + t2, a, b, c, d + t1, e, f, g))"

definition add_state :: "sha_state \<Rightarrow> sha_state \<Rightarrow> sha_state" where
  "add_state s s' =
     (case s of (a, b, c, d, e, f, g, h) \<Rightarrow>
      case s' of (a', b', c', d', e', f', g', h') \<Rightarrow>
        (a + a', b + b', c + c', d + d', e + e', f + f', g + g', h + h'))"

definition compress :: "sha_state \<Rightarrow> byte list \<Rightarrow> sha_state" where
  "compress s block = add_state s (foldl sha_round s (zip K256 (schedule 48 (be_words block))))"

definition sha256 :: "byte list \<Rightarrow> sha_state" where
  "sha256 m = foldl compress H256 (blocks (sha_pad m))"

definition hex_char :: "nat \<Rightarrow> char" where
  "hex_char n = ''0123456789abcdef'' ! n"

definition hex32 :: "u32 \<Rightarrow> string" where
  "hex32 w = map (\<lambda>k. hex_char (unat (drop_bit (4 * k) w AND 0xf))) (rev [0..<8])"

definition hexdigest :: "sha_state \<Rightarrow> string" where
  "hexdigest s =
     (case s of (a, b, c, d, e, f, g, h) \<Rightarrow>
        hex32 a @ hex32 b @ hex32 c @ hex32 d @ hex32 e @ hex32 f @ hex32 g @ hex32 h)"

definition sha256_hexdigest :: "byte list \<Rightarrow> string" where
  "sha256_hexdigest m = hexdigest (sha256 m)"

subsection \<open>Python built-ins used by the handlers\<close>

text \<open>\<^verbatim>\<open>str.lower\<close> on ASCII: only \<^verbatim>\<open>A\<close>..\<^verbatim>\<open>Z\<close> change.\<close>

definition lower_char :: "char \<Rightarrow> char" where
  "lower_char c =
     (let n = (of_char c :: nat) in if 65 \<le> n \<and> n \<le> 90 then char_of (n + 32) else c)"

definition lower :: "string \<Rightarrow> string" where
  "lower s = map lower_char s"

definition endswith :: "string \<Rightarrow> string \<Rightarrow> bool" where
  "endswith s suffix =
     (length suffix \<le> length s \<and> drop (length s - length suffix) s = suffix)"

text \<open>
  \<^verbatim>\<open>int(s, 16)\<close> as CPython parses it: surrounding white space (tab, line feed,
  vertical tab, form feed, carriage return and space) is skipped, then an
  optional sign, an optional \<^verbatim>\<open>0x\<close> prefix (one underscore may follow it), then hex
  digits with single underscores between them. Any other string raises ValueError,
  here \<open>None\<close>. Strings are ASCII: the Unicode digits and spaces that Python also
  accepts are outside the model.
\<close>

definition py_isspace :: "char \<Rightarrow> bool" where
  "py_isspace c = ((of_char c :: nat) \<in> {9, 10, 11, 12, 13, 32})"

definition digit_value :: "char \<Rightarrow> nat option" where
  "digit_value c =
     (let n = (of_char c :: nat)
      in if 48 \<le> n \<and> n \<le> 57 then Some (n - 48)
         else if 97 \<le> n \<and> n \<le> 102 then Some (n - 87)
         else if 65 \<le> n \<and> n \<le> 70 then Some (n - 55)
         else None)"

fun scan_digits :: "string \<Rightarrow> bool \<Rightarrow> nat \<Rightarrow> int \<Rightarrow> (int \<times> nat \<times> string) option" where
  "scan_digits [] prev_us digits z = (if prev_us then None else Some (z, digits, []))"
| "scan_digits (c # cs) prev_us digits z =
     (if c = CHR ''_'' then (if prev_us then None else scan_digits cs True digits z)
      else (case digit_value c of
              Some d \<Rightarrow> scan_digits cs False (Suc digits) (z * 16 + int d)
            | None \<Rightarrow> (if prev_us then None else Some (z, digits, c # cs))))"

definition skip_sign :: "string \<Rightarrow> int \<times> string" where
  "skip_sign s =
     (case s of
        c # rest \<Rightarrow>
          if c = CHR ''+'' then (1, rest) else if c = CHR ''-'' then (- 1, rest) else (1, s)
      | [] \<Rightarrow> (1, s))"

definition skip_prefix :: "string \<Rightarrow> string" where
  "skip_prefix s =
     (case s of
        c # x # rest \<Rightarrow>
          if c = CHR ''0'' \<and> (x = CHR ''x'' \<or> x = CHR ''X'')
          then (case rest of u # rest' \<Rightarrow> if u = CHR ''_'' then rest' else rest | [] \<Rightarrow> rest)
          else s
      | _ \<Rightarrow> s)"

definition py_int16 :: "string \<Rightarrow> int option" where
  "py_int16 s =
     (let (sign, s1) = skip_sign (dropWhile py_isspace s);
          s2 = skip_prefix s1
      in if take 1 s2 = ''_'' then None
         else case scan_digits s2 False 0 0 of
                None \<Rightarrow> None
              | Some (z, digits, rest) \<Rightarrow>
                  if digits = 0 \<or> dropWhile py_isspace rest \<noteq> [] then None
                  else Some (sign * z))"

definition py_range :: "nat \<Rightarrow> int list" where
  "py_range n = map int [0..<n]"

text \<open>\<^verbatim>\<open>datetime.isoformat()\<close> of a UTC-aware value.\<close>

fun zero_pad :: "nat \<Rightarrow> nat \<Rightarrow> string" where
  "zero_pad 0 n = []"
| "zero_pad (Suc w) n = zero_pad w (n div 10) @ [''0123456789'' ! (n mod 10)]"

definition isoformat :: "datetime \<Rightarrow> string" where
  "isoformat t =
     zero_pad 4 (year t) @ ''-'' @ zero_pad 2 (month t) @ ''-'' @ zero_pad 2 (day t) @ ''T'' @
     zero_pad 2 (hour t) @ '':'' @ zero_pad 2 (minute t) @ '':'' @ zero_pad 2 (second t) @
     (if microsecond t = 0 then [] else ''.'' @ zero_pad 6 (microsecond t)) @ ''+00:00''"

subsection \<open>\<^verbatim>\<open>analyze_media\<close>\<close>

text \<open>Line 54: \<^verbatim>\<open>file.filename.lower().endswith((".mp4", ".avi"))\<close>.\<close>

definition supported_file :: "string \<Rightarrow> bool" where
  "supported_file fname =
     (endswith (lower fname) ''.mp4'' \<or> endswith (lower fname) ''.avi'')"

text \<open>Lines 63-64, the nested function \<^verbatim>\<open>pseudo_rand\<close> with its free variable \<^verbatim>\<open>seed\<close>.\<close>

definition pseudo_rand :: "int \<Rightarrow> int \<Rightarrow> rat" where
  "pseudo_rand seed i = of_int ((seed * (i + 73)) mod 1000) / 1000"

definition total_frames :: nat where
  "total_frames = 60"

text \<open>Line 70, the value before the clamp, and line 71, the clamp.\<close>

definition raw_conf :: "int \<Rightarrow> int \<Rightarrow> rat" where
  "raw_conf seed i = 1 / 2 + 1 / 2 * ((pseudo_rand seed i + pseudo_rand seed (i div 3)) / 2)"

definition clamp_conf :: "rat \<Rightarrow> rat" where
  "clamp_conf conf = max 0 (min 1 conf)"

text \<open>Lines 66-72: the loop appends one score per index to the list built so far.\<close>

fun score_loop :: "int \<Rightarrow> int list \<Rightarrow> frame_score list \<Rightarrow> frame_score list" where
  "score_loop seed [] scores = scores"
| "score_loop seed (i # rest) scores =
     score_loop seed rest
       (scores @ [\<lparr>frame_index = i, confidence = clamp_conf (raw_conf seed i)\<rparr>])"

definition generate_scores :: "int \<Rightarrow> frame_score list" where
  "generate_scores seed = score_loop seed (py_range total_frames) []"

text \<open>Line 74: \<^verbatim>\<open>sum(s["confidence"] for s in frame_scores) / total_frames\<close>.\<close>

definition likelihood :: "frame_score list \<Rightarrow> rat" where
  "likelihood scores = sum_list (map confidence scores) / of_nat total_frames"

text \<open>Lines 79-89, the dictionary handed to the store.\<close>

definition job_doc :: "string \<Rightarrow> nat \<Rightarrow> string \<Rightarrow> rat \<Rightarrow> rat \<Rightarrow> frame_score list \<Rightarrow> datetime \<Rightarrow> dict" where
  "job_doc fname filesize fhash acc lik scores t =
     [(''filename'', PyStr fname),
      (''filesize'', PyInt (int filesize)),
      (''filehash'', PyStr fhash),
      (''status'', PyStr ''completed''),
      (''accuracy'', PyFloat acc),
      (''deepfake_likelihood'', PyFloat lik),
      (''model'', PyStr ''CNN+LSTM v1''),
      (''frame_scores'', PyScores scores),
      (''analyzed_at'', PyDatetime t)]"

definition contract_address :: string where
  "contract_address = ''0xDeePTrAce00000000000000000000000000000001''"

text \<open>
  The handler. \<open>create_document\<close> is the function imported from the \<^verbatim>\<open>database\<close>
  module: given the collection name, the document and the store it returns the new
  identifier or raises, and the store after the call. \<open>now\<close> is the clock reading of
  line 77. Both conversions \<^verbatim>\<open>int(..., 16)\<close> keep their ValueError branch.
  The clause \<^verbatim>\<open>except Exception\<close> of line 93 catches every value of \<^typ>\<open>error\<close>;
  interrupts, which are not exceptions of that hierarchy, are outside the model.
\<close>

definition analyze_media ::
  "(string \<Rightarrow> dict \<Rightarrow> 'db \<Rightarrow> (error + string) \<times> 'db) \<Rightarrow> datetime \<Rightarrow>
     string \<Rightarrow> byte list \<Rightarrow> 'db \<Rightarrow> (error + AnalyzeResponse) \<times> 'db" where
  "analyze_media create_document now fname content db =
     (if \<not> supported_file fname
      then (Inl (HTTPException 400 ''Only MP4 or AVI files are supported''), db)
      else
        let fhash = sha256_hexdigest content;
            filesize = length content
        in case py_int16 (take 8 fhash) of
             None \<Rightarrow> (Inl (ValueError (take 8 fhash)), db)
           | Some seed \<Rightarrow>
               let scores = generate_scores seed;
                   lik = likelihood scores;
                   acc = 95 / 100;
                   (created, db') =
                     create_document ''analysisjob''
                       (job_doc fname filesize fhash acc lik scores now) db;
                   jid = (case created of Inr new_id \<Rightarrow> new_id | Inl e \<Rightarrow> ''temporary'')
               in (case py_int16 fhash of
                    None \<Rightarrow> (Inl (ValueError fhash), db')
                  | Some n \<Rightarrow>
                      (Inr \<lparr>job_id = jid,
                            filename = fname,
                            accuracy = acc,
                            deepfake_likelihood = lik,
                            frame_scores = scores,
                            analyzed_at = now,
                            verification = Some
                              [(''contract_address'', PyStr contract_address),
                               (''tx_hash'', PyStr (''0x'' @ take 64 fhash)),
                               (''network'', PyStr ''ethereum''),
                               (''verified'', PyBool (n mod 2 = 0)),
                               (''timestamp'', PyStr (isoformat now))]\<rparr>,
                       db')))"

subsection \<open>\<^verbatim>\<open>verify_media\<close>\<close>

definition verify_media :: "datetime \<Rightarrow> VerifyRequest \<Rightarrow> error + dict" where
  "verify_media now payload =
     (let fh = lower (filehash payload)
      in case py_int16 fh of
           None \<Rightarrow> Inl (ValueError fh)
         | Some n \<Rightarrow>
             let verified = (n mod 2 = 0)
             in Inr [(''filehash'', PyStr fh),
                     (''contract_address'', PyStr contract_address),
                     (''tx_hash'', PyStr (''0x'' @ take 64 fh)),
                     (''network'', PyStr ''ethereum''),
                     (''verified'', PyBool verified),
                     (''timestamp'', PyStr (isoformat now))])"

subsection \<open>The record store\<close>

text \<open>
  Modelled from the spec: the record store behind \<^verbatim>\<open>create_document\<close> (the module
  \<^verbatim>\<open>database\<close> is not among the sources). Its create operation either fails with
  the store untouched, or appends the document, extended by a store-assigned
  identifier field, to the named collection and returns that identifier.
\<close>

record store =
  available :: bool
  next_id :: nat
  documents :: "(string \<times> dict) list"

definition store_create :: "string \<Rightarrow> dict \<Rightarrow> store \<Rightarrow> (error + string) \<times> store" where
  "store_create collection doc st =
     (if available st
      then let new_id = zero_pad 24 (next_id st)
           in (Inr new_id,
               st\<lparr>next_id := Suc (next_id st),
                  documents := documents st @ [(collection, doc @ [(''_id'', PyStr new_id)])]\<rparr>)
      else (Inl (Exception ''Database not available''), st))"

subsection \<open>Notions the specification uses\<close>

text \<open>A hex digit, its value, and a digit string read as one base-16 numeral.\<close>

definition is_hex :: "char \<Rightarrow> bool" where
  "is_hex c = (digit_value c \<noteq> None)"

definition nibble :: "char \<Rightarrow> nat" where
  "nibble c = (case digit_value c of Some d \<Rightarrow> d | None \<Rightarrow> 0)"

definition hex_value :: "string \<Rightarrow> int" where
  "hex_value s = foldl (\<lambda>z c. z * 16 + int (nibble c)) 0 s"

text \<open>The generator as the specification words it, over frame indices \<open>i \<ge> 0\<close>.\<close>

definition spec_pseudoRand :: "int \<Rightarrow> nat \<Rightarrow> rat" where
  "spec_pseudoRand seed i = of_int ((seed * (int i + 73)) mod 1000) / 1000"

definition spec_confidence :: "int \<Rightarrow> nat \<Rightarrow> rat" where
  "spec_confidence seed i =
     max 0 (min 1 (1 / 2 + 1 / 2 * ((spec_pseudoRand seed i + spec_pseudoRand seed (i div 3)) / 2)))"

text \<open>
  The status the HTTP framework answers with when a handler raises: the code of an
  \<^verbatim>\<open>HTTPException\<close>, and 500 (internal server error) for any other exception.
\<close>

definition http_status :: "error \<Rightarrow> nat" where
  "http_status e = (case e of HTTPException code detail \<Rightarrow> code | _ \<Rightarrow> 500)"

definition client_error :: "error \<Rightarrow> bool" where
  "client_error e = (400 \<le> http_status e \<and> http_status e < 500)"

section \<open>Properties\<close>

subsection \<open>The score generator\<close>

lemma score_loop_map:
  "score_loop seed idxs scores =
     scores @ map (\<lambda>i. \<lparr>frame_index = i, confidence = clamp_conf (raw_conf seed i)\<rparr>) idxs"
  by (induction idxs arbitrary: scores) simp_all

lemma pseudo_rand_bounds: "0 \<le> pseudo_rand seed i \<and> pseudo_rand seed i \<le> 999 / 1000"
proof -
  define m where "m = (seed * (i + 73)) mod 1000"
  have "0 \<le> m" and "m < 1000" unfolding m_def by simp_all
  then have "(0 :: rat) \<le> of_int m" and "(of_int m :: rat) \<le> 999" by simp_all
  then show ?thesis unfolding pseudo_rand_def m_def [symmetric] by simp
qed

lemma raw_conf_bounds: "1 / 2 \<le> raw_conf seed i \<and> raw_conf seed i \<le> 1999 / 2000"
  using pseudo_rand_bounds [of seed i] pseudo_rand_bounds [of seed "i div 3"]
  unfolding raw_conf_def by simp

lemma clamp_raw_conf: "clamp_conf (raw_conf seed i) = raw_conf seed i"
  using raw_conf_bounds [of seed i] unfolding clamp_conf_def by simp

lemma sum_list_bounds:
  fixes xs :: "rat list"
  shows "list_all (\<lambda>x. a \<le> x \<and> x \<le> b) xs \<Longrightarrow>
     a * of_nat (length xs) \<le> sum_list xs \<and> sum_list xs \<le> b * of_nat (length xs)"
  by (induction xs) (auto simp: algebra_simps)


lemma generate_scores_map:
  "generate_scores seed =
     map (\<lambda>i. \<lparr>frame_index = i, confidence = raw_conf seed i\<rparr>) (py_range 60)"
  by (simp add: generate_scores_def score_loop_map total_frames_def clamp_raw_conf)

lemma length_generate_scores: "length (generate_scores seed) = 60"
  by (simp add: generate_scores_map py_range_def)

lemma confidences_in_range:
  "list_all (\<lambda>x. 1 / 2 \<le> x \<and> x \<le> 1999 / 2000) (map confidence (generate_scores seed))"
  unfolding generate_scores_map list_all_iff using raw_conf_bounds by auto

lemma likelihood_bounds:
  "1 / 2 \<le> likelihood (generate_scores seed) \<and> likelihood (generate_scores seed) \<le> 1999 / 2000"
  using sum_list_bounds [OF confidences_in_range, of seed]
  by (simp add: likelihood_def total_frames_def length_generate_scores)

subsection \<open>Hex strings and \<^verbatim>\<open>int(s, 16)\<close>\<close>

lemma is_hex_not_special:
  "is_hex c \<Longrightarrow> \<not> py_isspace c \<and> c \<noteq> CHR ''_'' \<and> c \<noteq> CHR ''+'' \<and> c \<noteq> CHR ''-''
     \<and> c \<noteq> CHR ''x'' \<and> c \<noteq> CHR ''X''"
  by (auto simp: is_hex_def digit_value_def py_isspace_def Let_def split: if_splits)

lemma scan_digits_hex:
  "list_all is_hex s \<Longrightarrow>
     scan_digits s False digits z =
       Some (foldl (\<lambda>z c. z * 16 + int (nibble c)) z s, digits + length s, [])"
proof (induction s arbitrary: digits z)
  case Nil
  then show ?case by simp
next
  case (Cons c cs)
  then have "is_hex c" and "list_all is_hex cs" by simp_all
  then obtain d where d: "digit_value c = Some d" and "c \<noteq> CHR ''_''"
    using is_hex_not_special [of c] by (auto simp: is_hex_def)
  then show ?case
    using Cons.IH [OF \<open>list_all is_hex cs\<close>] by (simp add: nibble_def)
qed

lemma py_int16_hex:
  assumes "s \<noteq> []" and "list_all is_hex s"
  shows "py_int16 s = Some (hex_value s)"
proof -
  obtain c cs where s: "s = c # cs" using assms(1) by (cases s) auto
  then have c: "is_hex c" and cs: "list_all is_hex cs" using assms(2) by simp_all
  note nc = is_hex_not_special [OF c]
  have 1: "dropWhile py_isspace s = s" using s nc by simp
  have 2: "skip_sign s = (1, s)" using s nc by (simp add: skip_sign_def)
  have 3: "skip_prefix s = s"
  proof (cases cs)
    case Nil
    then show ?thesis using s by (simp add: skip_prefix_def)
  next
    case (Cons x rest)
    then have "is_hex x" using cs by simp
    then have "x \<noteq> CHR ''x'' \<and> x \<noteq> CHR ''X''" using is_hex_not_special by blast
    then show ?thesis using s Cons by (simp add: skip_prefix_def)
  qed
  have 4: "take 1 s \<noteq> ''_''" using s nc by simp
  show ?thesis
    using 4 assms(1) by (simp add: py_int16_def 1 2 3 scan_digits_hex [OF assms(2)] hex_value_def)
qed

lemma hex_value_snoc: "hex_value (s @ [c]) = hex_value s * 16 + int (nibble c)"
  by (simp add: hex_value_def)

lemma hex_value_parity: "s \<noteq> [] \<Longrightarrow> even (hex_value s) = even (nibble (last s))"
proof -
  assume "s \<noteq> []"
  then obtain t c where "s = t @ [c]" by (metis rev_exhaust)
  then show ?thesis by (simp add: hex_value_snoc)
qed

lemma digit_value_lower: "digit_value (lower_char c) = digit_value c"
  unfolding digit_value_def lower_char_def Let_def by auto

lemma list_all_lower_hex: "list_all is_hex s \<Longrightarrow> list_all is_hex (lower s)"
  by (simp add: lower_def list_all_iff is_hex_def digit_value_lower)

lemma nibble_lower: "nibble (lower_char c) = nibble c"
  by (simp add: nibble_def digit_value_lower)

lemma hex_char_digit: "n < 16 \<Longrightarrow> hex_char n \<in> set ''0123456789abcdef''"
  unfolding hex_char_def by (rule nth_mem) simp

lemma hex32_digits: "length (hex32 w) = 8 \<and> set (hex32 w) \<subseteq> set ''0123456789abcdef''"
proof -
  have "unat (x AND 15) < 16" for x :: u32
  proof -
    have "unat (x AND 15) \<le> unat (15 :: u32)"
      by (rule word_and_le1 [THEN word_le_nat_alt [THEN iffD1]])
    then show ?thesis by simp
  qed
  then have "hex_char (unat (x AND 15)) \<in> set ''0123456789abcdef''" for x :: u32
    by (rule hex_char_digit)
  then show ?thesis unfolding hex32_def by auto
qed

lemma hexdigest_digits:
  "length (hexdigest s) = 64 \<and> set (hexdigest s) \<subseteq> set ''0123456789abcdef''"
proof -
  obtain a b c d e f g h where s: "s = (a, b, c, d, e, f, g, h)" by (metis prod_cases7 surj_pair)
  show ?thesis
    unfolding s hexdigest_def prod.case using hex32_digits by (simp del: set_simps)
qed

lemma lower_digit_is_hex: "c \<in> set ''0123456789abcdef'' \<Longrightarrow> is_hex c"
  by (auto simp: is_hex_def digit_value_def)

lemma sha256_hexdigest_hex:
  "length (sha256_hexdigest m) = 64 \<and> list_all is_hex (sha256_hexdigest m)"
  using hexdigest_digits [of "sha256 m"] lower_digit_is_hex
  unfolding sha256_hexdigest_def list_all_iff by blast

lemma py_int16_digest:
  "py_int16 (sha256_hexdigest m) = Some (hex_value (sha256_hexdigest m))"
  "py_int16 (take 8 (sha256_hexdigest m)) = Some (hex_value (take 8 (sha256_hexdigest m)))"
proof -
  have len: "length (sha256_hexdigest m) = 64" and hex: "list_all is_hex (sha256_hexdigest m)"
    using sha256_hexdigest_hex by simp_all
  show "py_int16 (sha256_hexdigest m) = Some (hex_value (sha256_hexdigest m))"
    using len hex by (intro py_int16_hex) auto
  have "list_all is_hex (take 8 (sha256_hexdigest m))"
    using hex unfolding list_all_iff by (auto dest: in_set_takeD)
  moreover have "take 8 (sha256_hexdigest m) \<noteq> []" using len by auto
  ultimately show "py_int16 (take 8 (sha256_hexdigest m)) = Some (hex_value (take 8 (sha256_hexdigest m)))"
    by (intro py_int16_hex)
qed

subsection \<open>The handlers on accepted input\<close>

lemma endswith_lower_iff:
  "endswith (lower fname) suffix \<longleftrightarrow> (\<exists>stem ext. fname = stem @ ext \<and> lower ext = suffix)"
proof
  assume e: "endswith (lower fname) suffix"
  let ?k = "length fname - length suffix"
  have "fname = take ?k fname @ drop ?k fname" by simp
  moreover have "lower (drop ?k fname) = suffix"
    using e by (simp add: endswith_def lower_def drop_map)
  ultimately show "\<exists>stem ext. fname = stem @ ext \<and> lower ext = suffix" by blast
next
  assume "\<exists>stem ext. fname = stem @ ext \<and> lower ext = suffix"
  then obtain stem ext where "fname = stem @ ext" and "lower ext = suffix" by blast
  then show "endswith (lower fname) suffix"
    by (auto simp: endswith_def lower_def)
qed

lemma supported_file_iff:
  "supported_file fname \<longleftrightarrow>
     (\<exists>stem ext. fname = stem @ ext \<and> (lower ext = ''.mp4'' \<or> lower ext = ''.avi''))"
  unfolding supported_file_def endswith_lower_iff by blast

lemma analyze_media_supported:
  assumes "supported_file fname"
  shows "analyze_media create_document now fname content db =
     (let fhash = sha256_hexdigest content;
          scores = generate_scores (hex_value (take 8 fhash));
          lik = likelihood scores;
          created = create_document ''analysisjob''
                      (job_doc fname (length content) fhash (95 / 100) lik scores now) db
      in (Inr \<lparr>job_id = (case fst created of Inr new_id \<Rightarrow> new_id | Inl e \<Rightarrow> ''temporary''),
               filename = fname,
               accuracy = 95 / 100,
               deepfake_likelihood = lik,
               frame_scores = scores,
               analyzed_at = now,
               verification = Some
                 [(''contract_address'', PyStr contract_address),
                  (''tx_hash'', PyStr (''0x'' @ fhash)),
                  (''network'', PyStr ''ethereum''),
                  (''verified'', PyBool (even (hex_value fhash))),
                  (''timestamp'', PyStr (isoformat now))]\<rparr>,
          snd created))"
proof -
  have "take 64 (sha256_hexdigest content) = sha256_hexdigest content"
    using sha256_hexdigest_hex [of content] by simp
  then show ?thesis
    using assms
    by (simp add: analyze_media_def py_int16_digest Let_def even_iff_mod_2_eq_zero split: prod.split)
qed

subsection \<open>Further facts about the generator\<close>

lemma sum_list_constant:
  "list_all (\<lambda>s. confidence s = c) scores \<Longrightarrow>
     sum_list (map confidence scores) = c * of_nat (length scores)"
  by (induction scores) (auto simp: algebra_simps)

lemma pseudo_rand_zero: "pseudo_rand 0 i = 0"
  by (simp add: pseudo_rand_def)

lemma generate_scores_zero:
  "generate_scores 0 = map (\<lambda>i. \<lparr>frame_index = i, confidence = 1 / 2\<rparr>) (py_range 60)"
  by (simp add: generate_scores_map raw_conf_def pseudo_rand_zero)

lemma py_int16_zeros: "py_int16 ''00000000'' = Some 0"
  by (simp add: py_int16_hex is_hex_def digit_value_def hex_value_def nibble_def)

lemma spec_confidence_raw: "spec_confidence seed i = raw_conf seed (int i)"
proof -
  have "int i div 3 = int (i div 3)" by (simp add: zdiv_int)
  then have "spec_confidence seed i = clamp_conf (raw_conf seed (int i))"
    by (simp add: spec_confidence_def spec_pseudoRand_def clamp_conf_def raw_conf_def pseudo_rand_def)
  then show ?thesis by (simp add: clamp_raw_conf)
qed

lemma generate_scores_spec:
  "generate_scores seed =
     map (\<lambda>i. \<lparr>frame_index = int i, confidence = spec_confidence seed i\<rparr>) [0..<60]"
  by (simp add: generate_scores_map py_range_def spec_confidence_raw comp_def)

subsection \<open>Parity of a hex string and \<^verbatim>\<open>verify_media\<close> on hex input\<close>

lemma is_hex_cases: "is_hex c \<Longrightarrow> c \<in> set ''0123456789abcdefABCDEF''"
proof -
  assume "is_hex c"
  then have "(of_char c :: nat) \<in> {48..57} \<union> {97..102} \<union> {65..70}"
    by (auto simp: is_hex_def digit_value_def Let_def split: if_splits)
  then have "(of_char c :: nat) \<in> of_char ` set ''0123456789abcdefABCDEF''"
    by simp presburger
  then show ?thesis
    by (simp only: inj_image_mem_iff [OF inj_of_char])
qed

lemma lower_hex_digit: "is_hex c \<Longrightarrow> lower_char c \<in> set ''0123456789abcdef''"
proof -
  assume "is_hex c"
  then have "is_hex (lower_char c)" by (simp add: is_hex_def digit_value_lower)
  moreover have "\<not> (65 \<le> (of_char (lower_char c) :: nat) \<and> (of_char (lower_char c) :: nat) \<le> 90)"
    by (simp add: lower_char_def Let_def)
  ultimately have "(of_char (lower_char c) :: nat) \<in> {48..57} \<union> {97..102}"
    by (auto simp: is_hex_def digit_value_def Let_def split: if_splits)
  then have "(of_char (lower_char c) :: nat) \<in> of_char ` set ''0123456789abcdef''"
    by simp presburger
  then show ?thesis
    by (simp only: inj_image_mem_iff [OF inj_of_char])
qed

lemma even_nibble_digit:
  "c \<in> set ''0123456789abcdef'' \<Longrightarrow> even (nibble c) \<longleftrightarrow> c \<in> set ''02468ace''"
  apply (simp only: set_simps insert_iff empty_iff)
  apply (elim disjE FalseE)
  apply (simp_all add: nibble_def digit_value_def)
  done

lemma hex_value_lower: "hex_value (lower s) = hex_value s"
  by (simp add: hex_value_def lower_def foldl_map nibble_lower)

lemma last_lower: "s \<noteq> [] \<Longrightarrow> last (lower s) = lower_char (last s)"
  by (simp add: lower_def last_map)

lemma lower_parity:
  assumes "s \<noteq> []" and "list_all is_hex s"
  shows "even (hex_value (lower s)) \<longleftrightarrow> last (lower s) \<in> set ''02468ace''"
proof -
  have "is_hex (last s)" using assms by (simp add: list_all_iff)
  then have "lower_char (last s) \<in> set ''0123456789abcdef''" by (rule lower_hex_digit)
  then have "last (lower s) \<in> set ''0123456789abcdef''"
    unfolding last_lower [OF assms(1)] .
  moreover have "lower s \<noteq> []" using assms(1) by (simp add: lower_def)
  ultimately show ?thesis
    by (rule trans [OF hex_value_parity even_nibble_digit, rotated])
qed

lemma digest_parity:
  "even (hex_value (sha256_hexdigest m)) \<longleftrightarrow> last (sha256_hexdigest m) \<in> set ''02468ace''"
proof -
  have ne: "sha256_hexdigest m \<noteq> []" using sha256_hexdigest_hex [of m] by auto
  have "set (sha256_hexdigest m) \<subseteq> set ''0123456789abcdef''"
    using hexdigest_digits by (simp only: sha256_hexdigest_def)
  then have "last (sha256_hexdigest m) \<in> set ''0123456789abcdef''"
    using ne last_in_set by blast
  then show ?thesis
    by (rule trans [OF hex_value_parity [OF ne] even_nibble_digit])
qed

lemma verify_media_hex:
  assumes "fh \<noteq> []" and "list_all is_hex fh"
  shows "verify_media now \<lparr>filehash = fh\<rparr> =
     Inr [(''filehash'', PyStr (lower fh)),
          (''contract_address'', PyStr contract_address),
          (''tx_hash'', PyStr (''0x'' @ take 64 (lower fh))),
          (''network'', PyStr ''ethereum''),
          (''verified'', PyBool (even (hex_value (lower fh)))),
          (''timestamp'', PyStr (isoformat now))]"
proof -
  have "py_int16 (lower fh) = Some (hex_value (lower fh))"
    using assms by (intro py_int16_hex list_all_lower_hex) (simp_all add: lower_def)
  then show ?thesis
    by (simp add: verify_media_def Let_def even_iff_mod_2_eq_zero)
qed

subsection \<open>Concrete inputs\<close>

lemma supported_clip_mp4: "supported_file ''clip.mp4''"
  by (simp add: supported_file_def endswith_def lower_def lower_char_def char_of_eq_iff)

lemma unsupported_clip_mov: "\<not> supported_file ''clip.mov''"
  by (simp add: supported_file_def endswith_def lower_def lower_char_def char_of_eq_iff)

text \<open>
  The separator characters FS..US (codes 28 to 31) are not white space for the
  conversion: a digest that carries one is refused, while tab and space are skipped.
\<close>

lemma py_int16_separator_chars:
  "py_int16 (CHR 0x1F # ''1f'') = None \<and> py_int16 (''1f'' @ [CHR 0x1C]) = None \<and>
   py_int16 (CHR 0x09 # ''1f'' @ [CHR 0x20]) = Some 31"
  by (simp add: py_int16_def py_isspace_def skip_sign_def skip_prefix_def digit_value_def)

lemma zero_pad_3: "zero_pad 24 3 = ''000000000000000000000003''"
  by code_simp

text \<open>The digest of the empty message, as published with the standard.\<close>

lemma sha256_empty:
  "sha256_hexdigest [] = ''e3b0c44298fc1c149afbf4c8996fb92427ae41e4649b934ca495991b7852b855''"
  by code_simp

subsection \<open>\<^verbatim>\<open>analyze_media\<close> against the record store\<close>

lemma analyze_media_store:
  assumes "supported_file fname" and "available st"
  shows "analyze_media store_create now fname content st =
     (let fhash = sha256_hexdigest content;
          scores = generate_scores (hex_value (take 8 fhash));
          lik = likelihood scores;
          new_id = zero_pad 24 (next_id st)
      in (Inr \<lparr>job_id = new_id,
               filename = fname,
               accuracy = 95 / 100,
               deepfake_likelihood = lik,
               frame_scores = scores,
               analyzed_at = now,
               verification = Some
                 [(''contract_address'', PyStr contract_address),
                  (''tx_hash'', PyStr (''0x'' @ fhash)),
                  (''network'', PyStr ''ethereum''),
                  (''verified'', PyBool (even (hex_value fhash))),
                  (''timestamp'', PyStr (isoformat now))]\<rparr>,
          st\<lparr>next_id := Suc (next_id st),
             documents := documents st @
               [(''analysisjob'',
                 job_doc fname (length content) fhash (95 / 100) lik scores now @
                   [(''_id'', PyStr new_id)])]\<rparr>))"
  using assms(2) by (simp add: analyze_media_supported [OF assms(1)] store_create_def Let_def)

section \<open>The claims\<close>

text \<open>
  C1: for every uploaded byte sequence (under a supported file name) the handler returns a
  response; the digest it uses is the SHA-256 hex digest of the bytes (it is the payload of
  \<^verbatim>\<open>tx_hash\<close>), the seed is the base-16 value of the digest's first 8 characters, and
  the frame scores are, for \<open>i = 0, \<dots>, 59\<close> in this order, the index \<open>i\<close> with the
  confidence \<open>clamp(0.5 + 0.5 * ((pseudoRand(i) + pseudoRand(i div 3)) / 2), 0, 1)\<close>, where
  \<open>pseudoRand(i) = ((seed * (i + 73)) mod 1000) / 1000\<close>.
\<close>

theorem analyze_frame_scores:
  assumes "supported_file fname"
  shows "\<exists>r v. fst (analyze_media create_document now fname content db) = Inr r \<and>
           verification r = Some v \<and>
           map_of v ''tx_hash'' = Some (PyStr (''0x'' @ sha256_hexdigest content)) \<and>
           py_int16 (take 8 (sha256_hexdigest content)) =
             Some (hex_value (take 8 (sha256_hexdigest content))) \<and>
           frame_scores r =
             map (\<lambda>i. \<lparr>frame_index = int i,
                        confidence = spec_confidence (hex_value (take 8 (sha256_hexdigest content))) i\<rparr>)
               [0..<60]"
  by (simp add: analyze_media_supported [OF assms] Let_def py_int16_digest generate_scores_spec)

theorem analyze_frame_scores_witness:
  "supported_file ''clip.mp4'' \<and>
   (\<exists>r v. fst (analyze_media store_create \<lparr>year = 2024, month = 5, day = 17, hour = 9, minute = 30, second = 0, microsecond = 0\<rparr>
               ''clip.mp4'' [] \<lparr>available = True, next_id = 0, documents = []\<rparr>) = Inr r \<and>
      verification r = Some v \<and>
      map_of v ''tx_hash'' =
        Some (PyStr ''0xe3b0c44298fc1c149afbf4c8996fb92427ae41e4649b934ca495991b7852b855'') \<and>
      py_int16 ''e3b0c442'' = Some 3820012610 \<and>
      frame_scores r =
        map (\<lambda>i. \<lparr>frame_index = int i, confidence = spec_confidence 3820012610 i\<rparr>) [0..<60] \<and>
      spec_confidence 3820012610 0 = 153 / 200)"
proof -
  have hv: "hex_value ''e3b0c442'' = 3820012610"
    by (simp add: hex_value_def nibble_def digit_value_def)
  have tk: "take 8 (sha256_hexdigest []) = ''e3b0c442''"
    unfolding sha256_empty by simp
  have c0: "spec_confidence 3820012610 0 = 153 / 200"
    by (simp add: spec_confidence_def spec_pseudoRand_def)
  show ?thesis
    using supported_clip_mp4 c0
      analyze_frame_scores [OF supported_clip_mp4, of store_create
        "\<lparr>year = 2024, month = 5, day = 17, hour = 9, minute = 30, second = 0, microsecond = 0\<rparr>" "[]"
        "\<lparr>available = True, next_id = 0, documents = []\<rparr>"]
    unfolding tk hv unfolding sha256_empty by simp
qed



text \<open>
  C3: in the response of \<^verbatim>\<open>analyze_media\<close>, and in the record \<^verbatim>\<open>verify_media\<close> returns for
  a non-empty string of hex digits, \<^verbatim>\<open>verified\<close> is true exactly when the digest read as
  one base-16 integer is even, which holds exactly when its last character (lower-cased)
  is one of \<^verbatim>\<open>0 2 4 6 8 a c e\<close>.
\<close>

theorem verified_is_digest_parity:
  "(supported_file fname \<longrightarrow>
      (\<exists>r v. fst (analyze_media create_document now fname content db) = Inr r \<and>
             verification r = Some v \<and>
             map_of v ''verified'' = Some (PyBool (even (hex_value (sha256_hexdigest content)))) \<and>
             (even (hex_value (sha256_hexdigest content)) \<longleftrightarrow>
                last (sha256_hexdigest content) \<in> set ''02468ace''))) \<and>
   (fh \<noteq> [] \<and> list_all is_hex fh \<longrightarrow>
      (\<exists>v. verify_media now \<lparr>filehash = fh\<rparr> = Inr v \<and>
           map_of v ''verified'' = Some (PyBool (even (hex_value fh))) \<and>
           (even (hex_value fh) \<longleftrightarrow> last (lower fh) \<in> set ''02468ace'')))"
proof (intro conjI impI)
  assume "supported_file fname"
  then show "\<exists>r v. fst (analyze_media create_document now fname content db) = Inr r \<and>
             verification r = Some v \<and>
             map_of v ''verified'' = Some (PyBool (even (hex_value (sha256_hexdigest content)))) \<and>
             (even (hex_value (sha256_hexdigest content)) \<longleftrightarrow>
                last (sha256_hexdigest content) \<in> set ''02468ace'')"
    using digest_parity [of content] by (simp add: analyze_media_supported Let_def)
next
  assume h: "fh \<noteq> [] \<and> list_all is_hex fh"
  then have ne: "fh \<noteq> []" and hex: "list_all is_hex fh" by simp_all
  have "even (hex_value fh) \<longleftrightarrow> last (lower fh) \<in> set ''02468ace''"
    using lower_parity [OF ne hex] unfolding hex_value_lower .
  then show "\<exists>v. verify_media now \<lparr>filehash = fh\<rparr> = Inr v \<and>
           map_of v ''verified'' = Some (PyBool (even (hex_value fh))) \<and>
           (even (hex_value fh) \<longleftrightarrow> last (lower fh) \<in> set ''02468ace'')"
    unfolding verify_media_hex [OF ne hex] hex_value_lower by simp
qed

theorem verified_is_digest_parity_witness:
  "supported_file ''clip.mp4'' \<and>
   (\<exists>r v. fst (analyze_media store_create \<lparr>year = 2024, month = 5, day = 17, hour = 9, minute = 30, second = 0, microsecond = 0\<rparr> ''clip.mp4'' [] \<lparr>available = True, next_id = 3, documents = []\<rparr>) = Inr r \<and>
      verification r = Some v \<and>
      map_of v ''verified'' = Some (PyBool False) \<and>
      last (sha256_hexdigest []) = CHR ''5'') \<and>
   ''3fA'' \<noteq> [] \<and> list_all is_hex ''3fA'' \<and>
   (\<exists>v. verify_media \<lparr>year = 2024, month = 5, day = 17, hour = 9, minute = 30, second = 0, microsecond = 0\<rparr> \<lparr>filehash = ''3fA''\<rparr> = Inr v \<and>
      map_of v ''verified'' = Some (PyBool True) \<and>
      last (lower ''3fA'') = CHR ''a'')"
proof -
  have hex: "''3fA'' \<noteq> [] \<and> list_all is_hex ''3fA''"
    by (simp add: is_hex_def digit_value_def)
  have l: "lower ''3fA'' = ''3fa''"
    by (simp add: lower_def lower_char_def char_of_eq_iff)
  have last5: "last (sha256_hexdigest []) = CHR ''5''"
    unfolding sha256_empty by simp
  show ?thesis
    using supported_clip_mp4 hex last5
      verified_is_digest_parity [of "''clip.mp4''" store_create "\<lparr>year = 2024, month = 5, day = 17, hour = 9, minute = 30, second = 0, microsecond = 0\<rparr>" "[]" "\<lparr>available = True, next_id = 3, documents = []\<rparr>" "''3fA''"]
    unfolding l by auto
qed

text \<open>
  C4: for every non-empty frame-score sequence the generator produces, the aggregate
  likelihood of line 74 is the arithmetic mean of the confidences (the sum divided by
  the number of scores) and lies in \<open>[0, 1]\<close>; and a sequence of 60 scores whose
  confidences are all 0.5 has likelihood 0.5.
\<close>

theorem likelihood_is_mean:
  "generate_scores seed \<noteq> [] \<and>
   likelihood (generate_scores seed) =
     sum_list (map confidence (generate_scores seed)) / of_nat (length (generate_scores seed)) \<and>
   0 \<le> likelihood (generate_scores seed) \<and> likelihood (generate_scores seed) \<le> 1 \<and>
   (length scores = 60 \<and> list_all (\<lambda>s. confidence s = 1 / 2) scores \<longrightarrow> likelihood scores = 1 / 2)"
proof -
  have "generate_scores seed \<noteq> []"
    using length_generate_scores [of seed] by auto
  moreover have "likelihood scores = 1 / 2"
    if "length scores = 60" and "list_all (\<lambda>s. confidence s = 1 / 2) scores"
    using that sum_list_constant [of "1 / 2" scores]
    by (simp add: likelihood_def total_frames_def)
  ultimately show ?thesis
    using likelihood_bounds [of seed]
    by (simp add: likelihood_def length_generate_scores total_frames_def)
qed

theorem likelihood_is_mean_witness:
  "length (replicate 60 \<lparr>frame_index = 0, confidence = 1 / 2\<rparr>) = 60 \<and>
   list_all (\<lambda>s. confidence s = 1 / 2) (replicate 60 \<lparr>frame_index = 0, confidence = 1 / 2\<rparr>) \<and>
   likelihood (replicate 60 \<lparr>frame_index = 0, confidence = 1 / 2\<rparr>) = 1 / 2"
proof -
  have h: "length (replicate 60 \<lparr>frame_index = 0, confidence = 1 / 2\<rparr>) = 60 \<and>
      list_all (\<lambda>s. confidence s = 1 / 2) (replicate 60 \<lparr>frame_index = 0, confidence = 1 / 2\<rparr>)"
    by (simp add: list_all_iff)
  show ?thesis
    using h likelihood_is_mean [of 0 "replicate 60 \<lparr>frame_index = 0, confidence = 1 / 2\<rparr>"]
    by blast
qed

text \<open>
  C5 as stated fails: the digest \<^verbatim>\<open>Not-A-Hash\<close> is lower-cased, the conversion
  \<^verbatim>\<open>int(fh, 16)\<close> raises ValueError, and nothing in the handler turns it into a
  client-input error: the request ends with status 500.
\<close>

theorem malformed_digest_counterexample:
  "py_int16 (lower ''Not-A-Hash'') = None \<and>
   verify_media \<lparr>year = 2024, month = 5, day = 17, hour = 9, minute = 30, second = 0, microsecond = 0\<rparr> \<lparr>filehash = ''Not-A-Hash''\<rparr> = Inl (ValueError ''not-a-hash'') \<and>
   http_status (ValueError ''not-a-hash'') = 500 \<and>
   \<not> client_error (ValueError ''not-a-hash'')"
proof -
  have l: "lower ''Not-A-Hash'' = ''not-a-hash''"
    by (simp add: lower_def lower_char_def char_of_eq_iff)
  have p: "py_int16 ''not-a-hash'' = None"
    by (simp add: py_int16_def py_isspace_def skip_sign_def skip_prefix_def digit_value_def)
  show ?thesis
    by (simp add: verify_media_def l p http_status_def client_error_def)
qed

text \<open>
  C5, amended: the caller-supplied digest is lower-cased before use. If the lower-cased
  string is not accepted by \<^verbatim>\<open>int(fh, 16)\<close>, the handler returns no record: it raises the
  ValueError of the conversion, which is answered with status 500. If it is accepted, the
  record carries the lower-cased digest and the parity of its value.
\<close>

theorem malformed_digest_raises:
  "(py_int16 (lower fh) = None \<longrightarrow>
      verify_media now \<lparr>filehash = fh\<rparr> = Inl (ValueError (lower fh)) \<and>
      http_status (ValueError (lower fh)) = 500) \<and>
   (\<forall>n. py_int16 (lower fh) = Some n \<longrightarrow>
      (\<exists>v. verify_media now \<lparr>filehash = fh\<rparr> = Inr v \<and>
           map_of v ''filehash'' = Some (PyStr (lower fh)) \<and>
           map_of v ''verified'' = Some (PyBool (even n))))"
  by (simp add: verify_media_def Let_def http_status_def even_iff_mod_2_eq_zero)

theorem malformed_digest_raises_witness:
  "py_int16 (lower ''Not-A-Hash'') = None \<and>
   verify_media \<lparr>year = 2024, month = 5, day = 17, hour = 9, minute = 30, second = 0, microsecond = 0\<rparr> \<lparr>filehash = ''Not-A-Hash''\<rparr> = Inl (ValueError ''not-a-hash'') \<and>
   py_int16 (lower ''7F'') = Some 127 \<and>
   (\<exists>v. verify_media \<lparr>year = 2024, month = 5, day = 17, hour = 9, minute = 30, second = 0, microsecond = 0\<rparr> \<lparr>filehash = ''7F''\<rparr> = Inr v \<and>
        map_of v ''filehash'' = Some (PyStr ''7f'') \<and>
        map_of v ''verified'' = Some (PyBool False))"
proof -
  have l1: "lower ''Not-A-Hash'' = ''not-a-hash''"
    by (simp add: lower_def lower_char_def char_of_eq_iff)
  have p1: "py_int16 ''not-a-hash'' = None"
    by (simp add: py_int16_def py_isspace_def skip_sign_def skip_prefix_def digit_value_def)
  have l2: "lower ''7F'' = ''7f''"
    by (simp add: lower_def lower_char_def char_of_eq_iff)
  have p2: "py_int16 ''7f'' = Some 127"
    by (simp add: py_int16_def py_isspace_def skip_sign_def skip_prefix_def digit_value_def)
  show ?thesis
    using malformed_digest_raises [of "''Not-A-Hash''" "\<lparr>year = 2024, month = 5, day = 17, hour = 9, minute = 30, second = 0, microsecond = 0\<rparr>"]
      malformed_digest_raises [of "''7F''" "\<lparr>year = 2024, month = 5, day = 17, hour = 9, minute = 30, second = 0, microsecond = 0\<rparr>"]
    by (simp add: l1 p1 l2 p2)
qed

text \<open>
  C6: when the file name does not end, ignoring case, in \<^verbatim>\<open>.mp4\<close> or \<^verbatim>\<open>.avi\<close>, the
  handler raises \<^verbatim>\<open>HTTPException\<close> with status 400. The result does not depend on the
  uploaded bytes, and the store is returned as it was for every \<^verbatim>\<open>create_document\<close>:
  nothing is hashed, scored or persisted.
\<close>

theorem unsupported_file_rejected:
  assumes "\<not> (\<exists>stem ext. fname = stem @ ext \<and> (lower ext = ''.mp4'' \<or> lower ext = ''.avi''))"
  shows "analyze_media create_document now fname content db =
           (Inl (HTTPException 400 ''Only MP4 or AVI files are supported''), db) \<and>
         http_status (HTTPException 400 ''Only MP4 or AVI files are supported'') = 400 \<and>
         client_error (HTTPException 400 ''Only MP4 or AVI files are supported'')"
  using assms unfolding supported_file_iff [symmetric]
  by (simp add: analyze_media_def http_status_def client_error_def)

theorem unsupported_file_rejected_witness:
  "\<not> (\<exists>stem ext. ''clip.mov'' = stem @ ext \<and> (lower ext = ''.mp4'' \<or> lower ext = ''.avi'')) \<and>
   analyze_media store_create \<lparr>year = 2024, month = 5, day = 17, hour = 9, minute = 30, second = 0, microsecond = 0\<rparr>
     ''clip.mov'' [0x66, 0x74, 0x79, 0x70] \<lparr>available = True, next_id = 0, documents = []\<rparr> =
     (Inl (HTTPException 400 ''Only MP4 or AVI files are supported''),
      \<lparr>available = True, next_id = 0, documents = []\<rparr>)"
proof -
  have h: "\<not> (\<exists>stem ext. ''clip.mov'' = stem @ ext \<and> (lower ext = ''.mp4'' \<or> lower ext = ''.avi''))"
    using unsupported_clip_mov unfolding supported_file_iff .
  show ?thesis
  proof (intro conjI)
    show "\<not> (\<exists>stem ext. ''clip.mov'' = stem @ ext \<and> (lower ext = ''.mp4'' \<or> lower ext = ''.avi''))"
      by (rule h)
  qed (rule unsupported_file_rejected [OF h, THEN conjunct1])
qed

text \<open>
  C7 as stated fails: for a digest of 65 hex digits \<^verbatim>\<open>tx_hash\<close> is \<^verbatim>\<open>0x\<close> followed by the
  first 64 characters of the lower-cased digest only (line 127 slices \<^verbatim>\<open>fh[:64]\<close>).
\<close>

theorem tx_hash_truncated_counterexample:
  "verify_media \<lparr>year = 2024, month = 5, day = 17, hour = 9, minute = 30, second = 0, microsecond = 0\<rparr>
     \<lparr>filehash = ''0123456789ABCDEF0123456789abcdef0123456789abcdef0123456789abcdef7''\<rparr> =
   Inr [(''filehash'', PyStr ''0123456789abcdef0123456789abcdef0123456789abcdef0123456789abcdef7''),
        (''contract_address'', PyStr ''0xDeePTrAce00000000000000000000000000000001''),
        (''tx_hash'', PyStr ''0x0123456789abcdef0123456789abcdef0123456789abcdef0123456789abcdef''),
        (''network'', PyStr ''ethereum''),
        (''verified'', PyBool False),
        (''timestamp'', PyStr ''2024-05-17T09:30:00+00:00'')] \<and>
   ''0x0123456789abcdef0123456789abcdef0123456789abcdef0123456789abcdef'' \<noteq>
     ''0x'' @ lower ''0123456789ABCDEF0123456789abcdef0123456789abcdef0123456789abcdef7''"
proof -
  have l: "lower ''0123456789ABCDEF0123456789abcdef0123456789abcdef0123456789abcdef7'' = ''0123456789abcdef0123456789abcdef0123456789abcdef0123456789abcdef7''"
    by (simp add: lower_def lower_char_def char_of_eq_iff)
  have hex: "list_all is_hex ''0123456789ABCDEF0123456789abcdef0123456789abcdef0123456789abcdef7''"
    by (simp add: is_hex_def digit_value_def)
  have par: "even (hex_value (lower ''0123456789ABCDEF0123456789abcdef0123456789abcdef0123456789abcdef7'')) \<longleftrightarrow> False"
    using lower_parity [OF _ hex] unfolding l by simp
  have iso: "isoformat \<lparr>year = 2024, month = 5, day = 17, hour = 9, minute = 30, second = 0, microsecond = 0\<rparr> = ''2024-05-17T09:30:00+00:00''"
    by code_simp
  show ?thesis
    unfolding verify_media_hex [OF _ hex, simplified] par iso contract_address_def
    unfolding l by simp
qed

text \<open>
  C7, amended: for every non-empty string of hex digits, \<^verbatim>\<open>tx_hash\<close> is \<^verbatim>\<open>0x\<close>
  followed by the first 64 characters of the lower-cased digest, which is the whole
  lower-cased digest when it has at most 64 characters; \<^verbatim>\<open>network\<close> is \<^verbatim>\<open>ethereum\<close>
  and \<^verbatim>\<open>contract_address\<close> is the fixed string of line 126.
\<close>

theorem tx_hash_prefixes_digest:
  assumes "fh \<noteq> []" and "list_all is_hex fh"
  shows "\<exists>v. verify_media now \<lparr>filehash = fh\<rparr> = Inr v \<and>
           map_of v ''tx_hash'' = Some (PyStr (''0x'' @ take 64 (lower fh))) \<and>
           (length fh \<le> 64 \<longrightarrow> map_of v ''tx_hash'' = Some (PyStr (''0x'' @ lower fh))) \<and>
           map_of v ''network'' = Some (PyStr ''ethereum'') \<and>
           map_of v ''contract_address'' =
             Some (PyStr ''0xDeePTrAce00000000000000000000000000000001'')"
  by (simp add: verify_media_hex [OF assms] contract_address_def lower_def)

theorem tx_hash_prefixes_digest_witness:
  "''9F86D081884C7D659A2FEAA0C55AD015A3BF4F1B2B0B822CD15D6C15B0F00A08'' \<noteq> [] \<and>
   list_all is_hex ''9F86D081884C7D659A2FEAA0C55AD015A3BF4F1B2B0B822CD15D6C15B0F00A08'' \<and>
   length ''9F86D081884C7D659A2FEAA0C55AD015A3BF4F1B2B0B822CD15D6C15B0F00A08'' \<le> 64 \<and>
   (\<exists>v. verify_media \<lparr>year = 2024, month = 5, day = 17, hour = 9, minute = 30, second = 0, microsecond = 0\<rparr>
          \<lparr>filehash = ''9F86D081884C7D659A2FEAA0C55AD015A3BF4F1B2B0B822CD15D6C15B0F00A08''\<rparr> = Inr v \<and>
        map_of v ''tx_hash'' =
          Some (PyStr ''0x9f86d081884c7d659a2feaa0c55ad015a3bf4f1b2b0b822cd15d6c15b0f00a08'') \<and>
        map_of v ''network'' = Some (PyStr ''ethereum''))"
proof -
  have l: "lower ''9F86D081884C7D659A2FEAA0C55AD015A3BF4F1B2B0B822CD15D6C15B0F00A08'' = ''9f86d081884c7d659a2feaa0c55ad015a3bf4f1b2b0b822cd15d6c15b0f00a08''"
    by (simp add: lower_def lower_char_def char_of_eq_iff)
  have ne: "''9F86D081884C7D659A2FEAA0C55AD015A3BF4F1B2B0B822CD15D6C15B0F00A08'' \<noteq> []" by simp
  have hex: "list_all is_hex ''9F86D081884C7D659A2FEAA0C55AD015A3BF4F1B2B0B822CD15D6C15B0F00A08''"
    by (simp add: is_hex_def digit_value_def)
  have len: "length ''9F86D081884C7D659A2FEAA0C55AD015A3BF4F1B2B0B822CD15D6C15B0F00A08'' \<le> 64" by simp
  show ?thesis
    using ne hex len tx_hash_prefixes_digest [OF ne hex, of "\<lparr>year = 2024, month = 5, day = 17, hour = 9, minute = 30, second = 0, microsecond = 0\<rparr>"]
    unfolding l by auto
qed

text \<open>
  C8 as stated fails: the document stored for \<^verbatim>\<open>clip.mp4\<close> has the keys of
  \<^verbatim>\<open>job_doc\<close> and the identifier, and no \<^verbatim>\<open>verification\<close> entry (the verification
  record is built after the call of \<^verbatim>\<open>create_document\<close> and is only part of the response).
\<close>

theorem persisted_record_counterexample:
  "fst (last (documents (snd (analyze_media store_create \<lparr>year = 2024, month = 5, day = 17, hour = 9, minute = 30, second = 0, microsecond = 0\<rparr>
      ''clip.mp4'' [] \<lparr>available = True, next_id = 3, documents = []\<rparr>)))) = ''analysisjob'' \<and>
   map fst (snd (last (documents (snd (analyze_media store_create \<lparr>year = 2024, month = 5, day = 17, hour = 9, minute = 30, second = 0, microsecond = 0\<rparr>
      ''clip.mp4'' [] \<lparr>available = True, next_id = 3, documents = []\<rparr>))))) =
     [''filename'', ''filesize'', ''filehash'', ''status'', ''accuracy'', ''deepfake_likelihood'',
      ''model'', ''frame_scores'', ''analyzed_at'', ''_id''] \<and>
   map_of (snd (last (documents (snd (analyze_media store_create \<lparr>year = 2024, month = 5, day = 17, hour = 9, minute = 30, second = 0, microsecond = 0\<rparr>
      ''clip.mp4'' [] \<lparr>available = True, next_id = 3, documents = []\<rparr>))))) ''verification'' = None"
  by (simp add: analyze_media_store [OF supported_clip_mp4] Let_def job_doc_def)

text \<open>
  C8, amended: for every successful request against an available store, exactly one
  document is appended to the collection \<^verbatim>\<open>analysisjob\<close>. It holds the file name, the
  size, the digest, the accuracy, the likelihood, the frame scores and the time of the
  response, the constants \<^verbatim>\<open>status\<close> and \<^verbatim>\<open>model\<close>, and the store-assigned identifier,
  which is the \<^verbatim>\<open>job_id\<close> of the response. The verification record is in the response
  and not in the document.
\<close>

theorem persisted_record_fields:
  assumes "supported_file fname" and "available st"
  shows "\<exists>r. analyze_media store_create now fname content st =
           (Inr r,
            st\<lparr>next_id := Suc (next_id st),
               documents := documents st @
                 [(''analysisjob'',
                   [(''filename'', PyStr (filename r)),
                    (''filesize'', PyInt (int (length content))),
                    (''filehash'', PyStr (sha256_hexdigest content)),
                    (''status'', PyStr ''completed''),
                    (''accuracy'', PyFloat (accuracy r)),
                    (''deepfake_likelihood'', PyFloat (deepfake_likelihood r)),
                    (''model'', PyStr ''CNN+LSTM v1''),
                    (''frame_scores'', PyScores (frame_scores r)),
                    (''analyzed_at'', PyDatetime (analyzed_at r)),
                    (''_id'', PyStr (job_id r))])]\<rparr>) \<and>
           verification r \<noteq> None"
  by (simp add: analyze_media_store [OF assms] Let_def job_doc_def)

theorem persisted_record_fields_witness:
  "supported_file ''clip.mp4'' \<and> available \<lparr>available = True, next_id = 3, documents = []\<rparr> \<and>
   (\<exists>r. snd (analyze_media store_create \<lparr>year = 2024, month = 5, day = 17, hour = 9, minute = 30, second = 0, microsecond = 0\<rparr> ''clip.mp4'' [] \<lparr>available = True, next_id = 3, documents = []\<rparr>) =
      \<lparr>available = True, next_id = 4,
         documents =
           [(''analysisjob'',
             [(''filename'', PyStr ''clip.mp4''),
              (''filesize'', PyInt 0),
              (''filehash'', PyStr ''e3b0c44298fc1c149afbf4c8996fb92427ae41e4649b934ca495991b7852b855''),
              (''status'', PyStr ''completed''),
              (''accuracy'', PyFloat (95 / 100)),
              (''deepfake_likelihood'', PyFloat (deepfake_likelihood r)),
              (''model'', PyStr ''CNN+LSTM v1''),
              (''frame_scores'', PyScores (frame_scores r)),
              (''analyzed_at'', PyDatetime \<lparr>year = 2024, month = 5, day = 17, hour = 9, minute = 30, second = 0, microsecond = 0\<rparr>),
              (''_id'', PyStr ''000000000000000000000003'')])]\<rparr> \<and>
      fst (analyze_media store_create \<lparr>year = 2024, month = 5, day = 17, hour = 9, minute = 30, second = 0, microsecond = 0\<rparr> ''clip.mp4'' [] \<lparr>available = True, next_id = 3, documents = []\<rparr>) = Inr r)"
proof -
  have av: "available \<lparr>available = True, next_id = 3, documents = []\<rparr>" by simp
  show ?thesis
    using supported_clip_mp4 av
      persisted_record_fields [OF supported_clip_mp4 av, of "\<lparr>year = 2024, month = 5, day = 17, hour = 9, minute = 30, second = 0, microsecond = 0\<rparr>" "[]"]
    by (auto simp: analyze_media_store [OF supported_clip_mp4 av] Let_def zero_pad_3 sha256_empty)
qed

text \<open>
  C9: for every digest whose first 8 characters are \<^verbatim>\<open>00000000\<close> the seed of line 62
  is 0, every value of \<^verbatim>\<open>pseudo_rand\<close> is 0, the generator emits 60 scores, each with
  confidence exactly 0.5, and the likelihood is exactly 0.5.
\<close>

theorem zero_prefix_digest:
  assumes "take 8 digest = ''00000000''"
  shows "py_int16 (take 8 digest) = Some 0 \<and>
         pseudo_rand 0 i = 0 \<and>
         generate_scores 0 = map (\<lambda>i. \<lparr>frame_index = i, confidence = 1 / 2\<rparr>) (py_range 60) \<and>
         length (generate_scores 0) = 60 \<and>
         likelihood (generate_scores 0) = 1 / 2"
proof -
  have "list_all (\<lambda>s. confidence s = 1 / 2) (generate_scores 0)"
    by (simp add: generate_scores_zero list_all_iff)
  then have "likelihood (generate_scores 0) = 1 / 2"
    using sum_list_constant [of "1 / 2" "generate_scores 0"]
    by (simp add: likelihood_def length_generate_scores total_frames_def)
  then show ?thesis
    using assms by (simp add: py_int16_zeros pseudo_rand_zero generate_scores_zero py_range_def)
qed

theorem zero_prefix_digest_witness:
  "take 8 ''00000000b1946ac92492d2347c6235b4d2611184a1e3d9f0c5b7e8a9d0f1e2c3'' = ''00000000'' \<and>
   py_int16 (take 8 ''00000000b1946ac92492d2347c6235b4d2611184a1e3d9f0c5b7e8a9d0f1e2c3'') = Some 0 \<and>
   pseudo_rand 0 59 = 0 \<and>
   length (generate_scores 0) = 60 \<and>
   likelihood (generate_scores 0) = 1 / 2"
proof -
  have h: "take 8 ''00000000b1946ac92492d2347c6235b4d2611184a1e3d9f0c5b7e8a9d0f1e2c3'' = ''00000000''"
    by simp
  show ?thesis using h zero_prefix_digest [OF h, of 59] by blast
qed

text \<open>
  C10: for every seed (hence every digest) and every frame index, the value before
  the clamp lies in \<open>[0.5, 0.99975]\<close>, so the clamp of line 71 returns it unchanged; every
  emitted confidence and the likelihood lie in \<open>[0.5, 1)\<close>.
\<close>

theorem raw_confidence_never_clamped:
  "1 / 2 \<le> raw_conf seed i \<and> raw_conf seed i \<le> 99975 / 100000 \<and>
   clamp_conf (raw_conf seed i) = raw_conf seed i \<and>
   list_all (\<lambda>s. 1 / 2 \<le> confidence s \<and> confidence s < 1) (generate_scores seed) \<and>
   1 / 2 \<le> likelihood (generate_scores seed) \<and> likelihood (generate_scores seed) < 1"
proof -
  have raw: "1 / 2 \<le> raw_conf seed j \<and> raw_conf seed j \<le> 1999 / 2000" for j
    by (rule raw_conf_bounds)
  have "raw_conf seed i \<le> 99975 / 100000" using raw [of i] by simp
  moreover have "list_all (\<lambda>s. 1 / 2 \<le> confidence s \<and> confidence s < 1) (generate_scores seed)"
    unfolding generate_scores_map list_all_iff
  proof
    fix s
    assume "s \<in> set (map (\<lambda>i. \<lparr>frame_index = i, confidence = raw_conf seed i\<rparr>) (py_range 60))"
    then obtain j where "confidence s = raw_conf seed j" by auto
    then show "1 / 2 \<le> confidence s \<and> confidence s < 1" using raw [of j] by simp
  qed
  moreover have "likelihood (generate_scores seed) < 1"
    using likelihood_bounds [of seed] by simp
  ultimately show ?thesis
    using raw [of i] clamp_raw_conf likelihood_bounds [of seed] by simp
qed

end
